theory Spec2Isabelle
  imports Main "HOL-Library.Word" "HOL-Library.Sublist"
begin

section \<open>The event bus of \<open>xpra/wayland/compositor.pyx\<close>\<close>

text \<open>
  A model of the headless Wayland compositor of \<open>xpra/wayland/compositor.pyx\<close>: its
  event bus, the handlers of XDG surfaces with damage extraction and texture readback,
  and the lifecycle of the \<open>WaylandCompositor\<close> object, with the keyboard facade of
  \<open>xpra/wayland/keyboard.pyx\<close> it could hand out. The output and decoration
  handlers, which touch neither the surface records nor the wid counter, are not
  modelled.

  The module keeps one dictionary \<open>event_listeners\<close> from event names to lists of
  callbacks. A callback is an opaque Python callable; the model leaves its type open
  and only uses equality on it, as \<open>in\<close> and \<open>list.remove\<close> do.
\<close>

type_synonym 'cb listeners = "string \<rightharpoonup> 'cb list"

text \<open>\<open>event_listeners.setdefault(event_name, []).append(callback)\<close>\<close>

definition add_event_listener :: "'cb listeners \<Rightarrow> string \<Rightarrow> 'cb \<Rightarrow> 'cb listeners" where
  "add_event_listener event_listeners event_name callback =
     event_listeners(event_name \<mapsto>
       (case event_listeners event_name of None \<Rightarrow> [] | Some callbacks \<Rightarrow> callbacks) @ [callback])"

text \<open>
  \<open>remove_event_listener\<close>: two early returns (no list or an empty one, callback not
  in the list), then \<open>list.remove\<close>, which drops the first equal entry, then the key is
  popped when the list became empty.
\<close>

definition remove_event_listener :: "'cb listeners \<Rightarrow> string \<Rightarrow> 'cb \<Rightarrow> 'cb listeners" where
  "remove_event_listener event_listeners event_name callback =
     (case event_listeners event_name of
        None \<Rightarrow> event_listeners
      | Some callbacks \<Rightarrow>
          if callbacks = [] then event_listeners
          else if callback \<notin> set callbacks then event_listeners
          else (let callbacks' = remove1 callback callbacks
                in if callbacks' = [] then event_listeners(event_name := None)
                   else event_listeners(event_name \<mapsto> callbacks')))"

text \<open>
  \<open>emit\<close> calls every callback registered under the name, in list order, with the
  arguments given. The calls made are the function's result; callbacks are taken to
  return.
\<close>

definition emit :: "'cb listeners \<Rightarrow> string \<Rightarrow> 'a \<Rightarrow> ('cb \<times> 'a) list" where
  "emit event_listeners event_name args =
     map (\<lambda>callback. (callback, args))
       (case event_listeners event_name of None \<Rightarrow> [] | Some callbacks \<Rightarrow> callbacks)"

text \<open>No name is bound to an empty list: true of every bus built by the two functions.\<close>

definition no_empty_lists :: "'cb listeners \<Rightarrow> bool" where
  "no_empty_lists event_listeners = (\<forall>n. event_listeners n \<noteq> Some [])"

section \<open>Native objects handed over by the compositor library\<close>

text \<open>
  Pointers are addresses, \<open>0\<close> is \<open>NULL\<close>. C \<open>int\<close> and \<open>uint32_t\<close> are 32-bit
  words (\<open>sint\<close> reads the signed ones), \<open>unsigned long\<close> is a 64-bit word. A pointer
  to a library object that a handler only reads through is modelled by the value it
  points to, \<open>None\<close> where the code tests it against \<open>NULL\<close>.
\<close>

type_synonym uintptr_t = nat

datatype wlr_xdg_surface_role =
  WLR_XDG_SURFACE_ROLE_NONE | WLR_XDG_SURFACE_ROLE_TOPLEVEL | WLR_XDG_SURFACE_ROLE_POPUP

record wlr_box =
  box_x :: "32 word"
  box_y :: "32 word"
  box_width :: "32 word"
  box_height :: "32 word"

record pixman_box32_t =
  x1 :: "32 word"
  y1 :: "32 word"
  x2 :: "32 word"
  y2 :: "32 word"

text \<open>
  A texture with its two dimensions. \<open>read_pixels\<close> is the answer of the library's
  \<open>wlr_texture_read_pixels\<close> for this texture: \<open>None\<close> when the call returns false,
  otherwise the bytes it writes into the destination buffer.
\<close>

record wlr_texture =
  tex_width :: "32 word"
  tex_height :: "32 word"
  read_pixels :: "8 word list option"

record wlr_client_buffer =
  texture :: "wlr_texture option"

text \<open>\<open>buffer_damage\<close> is the box array \<open>pixman_region32_rectangles\<close> returns for the region.\<close>

record wlr_surface =
  buffer :: "wlr_client_buffer option"
  mapped :: bool
  buffer_damage :: "pixman_box32_t list"

text \<open>
  The \<open>char *\<close> strings of a toplevel: \<open>None\<close> for \<open>NULL\<close>, otherwise the bytes
  before the terminating zero.
\<close>

record wlr_xdg_toplevel =
  title :: "8 word list option"
  app_id :: "8 word list option"

record wlr_xdg_surface =
  role :: wlr_xdg_surface_role
  surface :: wlr_surface
  toplevel :: "wlr_xdg_toplevel option"
  initialized :: bool
  configured :: bool
  geometry :: wlr_box

section \<open>Records and globals of the module\<close>

text \<open>The eleven \<open>wl_listener\<close> fields of \<open>struct xdg_surface\<close>.\<close>

datatype listener_field =
  L_map | L_unmap | L_destroy | L_commit
  | L_request_move | L_request_resize | L_request_maximize | L_request_fullscreen
  | L_request_minimize | L_set_title | L_set_app_id

text \<open>
  \<open>struct xdg_surface\<close>. For each listener, \<open>linked\<close> tells whether its
  \<open>link.next\<close> is not \<open>NULL\<close>: \<open>calloc\<close> leaves it false, \<open>wl_signal_add\<close> sets
  it, \<open>wl_list_remove\<close> clears it. The field \<open>wid\<close> of the struct is \<open>surface_wid\<close>
  here, the module's global counter keeps the name \<open>wid\<close>. The pointers \<open>srv\<close> and
  \<open>scene_tree\<close>, which no handler reads, are left out.
\<close>

record xdg_surface =
  wlr_xdg_surface_ptr :: uintptr_t
  linked :: "listener_field \<Rightarrow> bool"
  width :: "32 word"
  height :: "32 word"
  surface_wid :: "64 word"

text \<open>
  The module's state: the global \<open>wid\<close> (\<open>cdef unsigned long wid = 0\<close>), the flag
  \<open>debug\<close> read once at import, the \<open>xdg_surface\<close> records allocated and not yet
  freed, by address, and the process environment.
\<close>

record state =
  wid :: "64 word"
  debug :: bool
  surfaces :: "uintptr_t \<rightharpoonup> xdg_surface"
  environ :: "string \<rightharpoonup> string"

definition initial_state :: "bool \<Rightarrow> state" where
  "initial_state dbg = \<lparr>wid = 0, debug = dbg, surfaces = Map.empty, environ = Map.empty\<rparr>"

section \<open>What a handler does: library calls and emitted events\<close>

record image_wrapper =
  img_x :: int
  img_y :: int
  img_width :: int
  img_height :: int
  img_pixels :: "8 word list"
  img_pixel_format :: string
  img_depth :: int
  img_rowstride :: int

text \<open>
  The Python values handed to \<open>emit\<close>. A \<open>str\<close> is the list of its code points.
\<close>

datatype pyval =
  PyInt int | PyStr "nat list" | PyBool bool | PyTuple "pyval list" | PyList "pyval list"
  | PyImage image_wrapper

text \<open>One call of \<open>emit(event_name, *args)\<close>.\<close>

type_synonym event = "string \<times> pyval list"

datatype drm_format = DRM_FORMAT_ABGR8888

record wlr_texture_read_pixels_options =
  opts_format :: drm_format
  opts_stride :: "32 word"
  opts_dst_x :: "32 word"
  opts_dst_y :: "32 word"
  opts_src_box :: wlr_box

datatype lib_call =
  wl_signal_add listener_field
  | wl_list_remove listener_field
  | free uintptr_t
  | wlr_scene_xdg_surface_create uintptr_t
  | wlr_xdg_toplevel_set_size int int
  | wlr_xdg_surface_schedule_configure
  | wlr_texture_read_pixels wlr_texture_read_pixels_options

record effects =
  calls :: "lib_call list"
  emitted :: "event list"

definition no_effects :: effects where
  "no_effects = \<lparr>calls = [], emitted = []\<rparr>"

definition emits :: "string \<Rightarrow> pyval list \<Rightarrow> effects" where
  "emits event_name args = \<lparr>calls = [], emitted = [(event_name, args)]\<rparr>"

definition then_effects :: "effects \<Rightarrow> effects \<Rightarrow> effects" where
  "then_effects e f = \<lparr>calls = calls e @ calls f, emitted = emitted e @ emitted f\<rparr>"

text \<open>The callbacks a bus runs for a sequence of \<open>emit\<close> calls.\<close>

definition deliver :: "'cb listeners \<Rightarrow> event list \<Rightarrow> ('cb \<times> pyval list) list" where
  "deliver event_listeners evs = concat (map (\<lambda>(n, args). emit event_listeners n args) evs)"

section \<open>Damage and readback\<close>

text \<open>
  \<open>get_damage_areas\<close>: one tuple \<open>(x1, y1, x2 - x1, y2 - y1)\<close> per box, in order; the
  subtraction is the C one on \<open>int32_t\<close>.
\<close>

definition get_damage_areas :: "pixman_box32_t list \<Rightarrow> pyval list" where
  "get_damage_areas rects =
     map (\<lambda>r. PyTuple [PyInt (sint (x1 r)), PyInt (sint (y1 r)),
                        PyInt (sint (x2 r - x1 r)), PyInt (sint (y2 r - y1 r))]) rects"

text \<open>
  The buffer \<open>getbuf(texture_size, 0)\<close> allocates has \<open>texture_size\<close> bytes whatever
  the library writes into it.
\<close>

definition buffer_contents :: "nat \<Rightarrow> 8 word list \<Rightarrow> 8 word list" where
  "buffer_contents n written = take n written @ replicate (n - length written) 0"

text \<open>
  \<open>capture_surface_pixels\<close>: two early returns on a missing buffer or texture, the
  \<open>uint32_t\<close> products \<open>stride = width * 4\<close> and \<open>texture_size = stride * height\<close>, the
  read, the early return when it fails, then the \<open>surface-image\<close> event.
\<close>

definition capture_surface_pixels :: "xdg_surface \<Rightarrow> wlr_xdg_surface \<Rightarrow> effects" where
  "capture_surface_pixels surf xdg =
     (case buffer (surface xdg) of
        None \<Rightarrow> no_effects
      | Some client_buffer \<Rightarrow>
          (case texture client_buffer of
             None \<Rightarrow> no_effects
           | Some tex \<Rightarrow>
               (let width = tex_width tex;
                    height = tex_height tex;
                    stride = width * 4;
                    texture_size = stride * height;
                    opts = \<lparr>opts_format = DRM_FORMAT_ABGR8888, opts_stride = stride,
                            opts_dst_x = 0, opts_dst_y = 0,
                            opts_src_box = \<lparr>box_x = box_x (geometry xdg), box_y = box_y (geometry xdg),
                                            box_width = width, box_height = height\<rparr>\<rparr>;
                    reading = \<lparr>calls = [wlr_texture_read_pixels opts], emitted = []\<rparr>
                in case read_pixels tex of
                     None \<Rightarrow> reading
                   | Some written \<Rightarrow>
                       then_effects reading
                         (emits ''surface-image''
                            [PyInt (uint (surface_wid surf)),
                             PyImage \<lparr>img_x = 0, img_y = 0,
                                      img_width = uint width, img_height = uint height,
                                      img_pixels = buffer_contents (unat texture_size) written,
                                      img_pixel_format = ''BGRA'', img_depth = 32,
                                      img_rowstride = uint stride\<rparr>]))))"

section \<open>Surface handlers\<close>

text \<open>
  Each handler gets the \<open>xdg_surface\<close> record its listener sits in and the native
  surface the record points to, as the library holds it at the time of the call.
  Logging is left out, except where the code branches on \<open>debug\<close>.
\<close>

text \<open>
  \<open>bytes.decode("utf8")\<close>: the strict decoder. \<open>None\<close> stands for the
  \<open>UnicodeDecodeError\<close> it raises on a byte that cannot start a sequence, a missing or
  wrong continuation byte, an overlong form, a surrogate or a code point above
  \<open>0x10FFFF\<close>.
\<close>

definition continuation :: "8 word \<Rightarrow> bool" where
  "continuation b = (0x80 \<le> b \<and> b \<le> 0xBF)"

definition payload :: "8 word \<Rightarrow> 8 word \<Rightarrow> nat" where
  "payload b marker = unat b - unat marker"

fun decode_utf8 :: "8 word list \<Rightarrow> nat list option" where
  "decode_utf8 [] = Some []"
| "decode_utf8 (b0 # bs) =
     (if b0 < 0x80 then map_option ((#) (unat b0)) (decode_utf8 bs)
      else if 0xC2 \<le> b0 \<and> b0 \<le> 0xDF then
        (case bs of
           b1 # rest \<Rightarrow>
             if continuation b1
             then map_option ((#) (payload b0 0xC0 * 64 + payload b1 0x80)) (decode_utf8 rest)
             else None
         | _ \<Rightarrow> None)
      else if 0xE0 \<le> b0 \<and> b0 \<le> 0xEF then
        (case bs of
           b1 # b2 # rest \<Rightarrow>
             if (if b0 = 0xE0 then 0xA0 else 0x80) \<le> b1
                \<and> b1 \<le> (if b0 = 0xED then 0x9F else 0xBF) \<and> continuation b2
             then map_option
                    ((#) (payload b0 0xE0 * 4096 + payload b1 0x80 * 64 + payload b2 0x80))
                    (decode_utf8 rest)
             else None
         | _ \<Rightarrow> None)
      else if 0xF0 \<le> b0 \<and> b0 \<le> 0xF4 then
        (case bs of
           b1 # b2 # b3 # rest \<Rightarrow>
             if (if b0 = 0xF0 then 0x90 else 0x80) \<le> b1
                \<and> b1 \<le> (if b0 = 0xF4 then 0x8F else 0xBF)
                \<and> continuation b2 \<and> continuation b3
             then map_option
                    ((#) (payload b0 0xF0 * 262144 + payload b1 0x80 * 4096
                          + payload b2 0x80 * 64 + payload b3 0x80))
                    (decode_utf8 rest)
             else None
         | _ \<Rightarrow> None)
      else None)"

text \<open>
  \<open>toplevel.title.decode("utf8") if (toplevel and toplevel.title) else ""\<close>, and the
  same for the app id: the empty string without a toplevel or a string, otherwise the
  decoded bytes, \<open>None\<close> when decoding raises.
\<close>

definition title_of :: "wlr_xdg_surface \<Rightarrow> nat list option" where
  "title_of xdg = (case toplevel xdg of None \<Rightarrow> Some [] | Some tlv \<Rightarrow>
                    (case title tlv of None \<Rightarrow> Some [] | Some t \<Rightarrow> decode_utf8 t))"

definition app_id_of :: "wlr_xdg_surface \<Rightarrow> nat list option" where
  "app_id_of xdg = (case toplevel xdg of None \<Rightarrow> Some [] | Some tlv \<Rightarrow>
                     (case app_id tlv of None \<Rightarrow> Some [] | Some t \<Rightarrow> decode_utf8 t))"

text \<open>
  The handlers that decode are \<open>noexcept\<close>: an exception raised in them is reported
  and dropped, and the handler returns at that point. \<open>with_strings\<close> runs the rest of
  such a handler on the decoded title and app id, and does nothing when the title or,
  after it, the app id cannot be decoded.
\<close>

definition with_strings :: "wlr_xdg_surface \<Rightarrow> (nat list \<Rightarrow> nat list \<Rightarrow> effects) \<Rightarrow> effects" where
  "with_strings xdg rest =
     (case title_of xdg of
        None \<Rightarrow> no_effects
      | Some t \<Rightarrow> (case app_id_of xdg of None \<Rightarrow> no_effects | Some i \<Rightarrow> rest t i))"

definition size_of :: "wlr_xdg_surface \<Rightarrow> pyval" where
  "size_of xdg = PyTuple [PyInt (sint (box_width (geometry xdg))),
                          PyInt (sint (box_height (geometry xdg)))]"

text \<open>\<open>xdg_surface_map\<close>: title and app id are decoded first, then the event is emitted.\<close>

definition xdg_surface_map :: "xdg_surface \<Rightarrow> wlr_xdg_surface \<Rightarrow> effects" where
  "xdg_surface_map surf xdg =
     with_strings xdg (\<lambda>t i.
       emits ''map'' [PyInt (uint (surface_wid surf)), PyStr t, PyStr i, size_of xdg])"

definition xdg_surface_unmap :: "xdg_surface \<Rightarrow> effects" where
  "xdg_surface_unmap surf = emits ''unmap'' [PyInt (uint (surface_wid surf))]"

text \<open>
  \<open>xdg_surface_destroy_handler\<close>: four unconditional \<open>wl_list_remove\<close>, seven guarded
  by \<open>link.next != NULL\<close>, \<open>free(surface)\<close>, and then, inside \<open>if debug:\<close>, the log
  line and \<open>emit("destroy", wid)\<close>.
\<close>

definition unlink_if_linked :: "xdg_surface \<Rightarrow> listener_field \<Rightarrow> lib_call list" where
  "unlink_if_linked surf f = (if linked surf f then [wl_list_remove f] else [])"

definition xdg_surface_destroy_handler :: "state \<Rightarrow> uintptr_t \<Rightarrow> xdg_surface \<Rightarrow> state \<times> effects" where
  "xdg_surface_destroy_handler st a surf =
     (let unlinking =
            [wl_list_remove L_map, wl_list_remove L_unmap,
             wl_list_remove L_destroy, wl_list_remove L_commit]
            @ unlink_if_linked surf L_request_move
            @ unlink_if_linked surf L_request_resize
            @ unlink_if_linked surf L_request_maximize
            @ unlink_if_linked surf L_request_fullscreen
            @ unlink_if_linked surf L_request_minimize
            @ unlink_if_linked surf L_set_title
            @ unlink_if_linked surf L_set_app_id;
          wid' = surface_wid surf;
          st' = st\<lparr>surfaces := (surfaces st)(a := None)\<rparr>
      in (st', \<lparr>calls = unlinking @ [free a],
                emitted = (if debug st then [(''destroy'', [PyInt (uint wid')])] else [])\<rparr>))"

text \<open>
  \<open>xdg_surface_commit\<close>: the first configure of a toplevel, then \<open>rects = []\<close>, and only
  \<open>if wlr_surface.mapped\<close> the damage areas and the readback; the \<open>commit\<close> event
  comes last.
\<close>

definition xdg_surface_commit :: "xdg_surface \<Rightarrow> wlr_xdg_surface \<Rightarrow> effects" where
  "xdg_surface_commit surf xdg =
     (let first_configure =
            (if toplevel xdg \<noteq> None \<and> initialized xdg \<and> \<not> configured xdg
             then \<lparr>calls = [wlr_xdg_toplevel_set_size 800 600, wlr_xdg_surface_schedule_configure],
                   emitted = []\<rparr>
             else no_effects);
          wlr_surf = surface xdg;
          rects = (if mapped wlr_surf then get_damage_areas (buffer_damage wlr_surf) else []);
          readback = (if mapped wlr_surf then capture_surface_pixels surf xdg else no_effects)
      in then_effects first_configure
           (then_effects readback
              (emits ''commit'' [PyInt (uint (surface_wid surf)), PyBool (mapped wlr_surf),
                                 PyList rects])))"

definition xdg_toplevel_request_move :: "xdg_surface \<Rightarrow> 32 word \<Rightarrow> effects" where
  "xdg_toplevel_request_move surf serial =
     emits ''move'' [PyInt (uint (surface_wid surf)), PyInt (uint serial)]"

definition xdg_toplevel_request_resize :: "xdg_surface \<Rightarrow> 32 word \<Rightarrow> effects" where
  "xdg_toplevel_request_resize surf serial =
     emits ''resize'' [PyInt (uint (surface_wid surf)), PyInt (uint serial)]"

definition xdg_toplevel_request_maximize :: "xdg_surface \<Rightarrow> effects" where
  "xdg_toplevel_request_maximize surf = emits ''maximize'' [PyInt (uint (surface_wid surf))]"

definition xdg_toplevel_request_fullscreen :: "xdg_surface \<Rightarrow> effects" where
  "xdg_toplevel_request_fullscreen surf = emits ''fullscreen'' [PyInt (uint (surface_wid surf))]"

definition xdg_toplevel_request_minimize :: "xdg_surface \<Rightarrow> effects" where
  "xdg_toplevel_request_minimize surf = emits ''minimize'' [PyInt (uint (surface_wid surf))]"

text \<open>The title and app-id handlers only log.\<close>

definition xdg_toplevel_set_title_handler :: "xdg_surface \<Rightarrow> effects" where
  "xdg_toplevel_set_title_handler surf = no_effects"

definition xdg_toplevel_set_app_id_handler :: "xdg_surface \<Rightarrow> effects" where
  "xdg_toplevel_set_app_id_handler surf = no_effects"

text \<open>
  \<open>new_xdg_surface\<close>. \<open>a\<close> is the address \<open>calloc\<close> returns for the record and
  \<open>xdg_ptr\<close> the address of the native surface. A popup returns before anything is
  allocated or counted. Otherwise the global \<open>wid\<close> is incremented (an
  \<open>unsigned long\<close> addition) and copied into the record, the four surface listeners
  are added, the seven toplevel ones only when the native surface has a toplevel. Only
  then are title and app id decoded and \<open>new-surface\<close> emitted: when decoding
  raises, the record and the wid stay and no event is emitted.
\<close>

definition toplevel_fields :: "listener_field list" where
  "toplevel_fields = [L_request_move, L_request_resize, L_request_maximize,
                      L_request_fullscreen, L_request_minimize, L_set_title, L_set_app_id]"

definition new_xdg_surface :: "state \<Rightarrow> uintptr_t \<Rightarrow> uintptr_t \<Rightarrow> wlr_xdg_surface \<Rightarrow> state \<times> effects" where
  "new_xdg_surface st a xdg_ptr xdg_surf =
     (if role xdg_surf \<noteq> WLR_XDG_SURFACE_ROLE_NONE \<and> role xdg_surf \<noteq> WLR_XDG_SURFACE_ROLE_TOPLEVEL
      then (st, no_effects)
      else
        (let wid' = wid st + 1;
             fields = [L_map, L_unmap, L_destroy, L_commit]
                      @ (if toplevel xdg_surf \<noteq> None then toplevel_fields else []);
             surf = \<lparr>wlr_xdg_surface_ptr = xdg_ptr, linked = (\<lambda>f. f \<in> set fields),
                     width = 0, height = 0, surface_wid = wid'\<rparr>
         in (st\<lparr>wid := wid', surfaces := (surfaces st)(a \<mapsto> surf)\<rparr>,
             then_effects
               \<lparr>calls = wlr_scene_xdg_surface_create xdg_ptr # map wl_signal_add fields,
                emitted = []\<rparr>
               (with_strings xdg_surf (\<lambda>t i.
                  emits ''new-surface''
                    [PyInt (int xdg_ptr), PyInt (uint wid'), PyStr t, PyStr i,
                     size_of xdg_surf])))))"

section \<open>Signals delivered by the library\<close>

text \<open>
  The library calls the \<open>notify\<close> function of a listener only while the listener is
  linked into the signal's list. \<open>notify\<close> is that call for the listener \<open>f\<close> of the
  record at address \<open>a\<close>: nothing happens when no such record is allocated or its
  listener is not linked. \<open>serial\<close> is the serial of a move or resize request.
\<close>

definition notify :: "state \<Rightarrow> uintptr_t \<Rightarrow> listener_field \<Rightarrow> wlr_xdg_surface \<Rightarrow> 32 word \<Rightarrow> state \<times> effects" where
  "notify st a f xdg serial =
     (case surfaces st a of
        None \<Rightarrow> (st, no_effects)
      | Some surf \<Rightarrow>
          if \<not> linked surf f then (st, no_effects)
          else (case f of
                  L_map \<Rightarrow> (st, xdg_surface_map surf xdg)
                | L_unmap \<Rightarrow> (st, xdg_surface_unmap surf)
                | L_destroy \<Rightarrow> xdg_surface_destroy_handler st a surf
                | L_commit \<Rightarrow> (st, xdg_surface_commit surf xdg)
                | L_request_move \<Rightarrow> (st, xdg_toplevel_request_move surf serial)
                | L_request_resize \<Rightarrow> (st, xdg_toplevel_request_resize surf serial)
                | L_request_maximize \<Rightarrow> (st, xdg_toplevel_request_maximize surf)
                | L_request_fullscreen \<Rightarrow> (st, xdg_toplevel_request_fullscreen surf)
                | L_request_minimize \<Rightarrow> (st, xdg_toplevel_request_minimize surf)
                | L_set_title \<Rightarrow> (st, xdg_toplevel_set_title_handler surf)
                | L_set_app_id \<Rightarrow> (st, xdg_toplevel_set_app_id_handler surf)))"

text \<open>What the library can ask of the module while the event loop runs.\<close>

datatype lib_event =
  New_xdg_surface uintptr_t uintptr_t wlr_xdg_surface
  | Signal uintptr_t listener_field wlr_xdg_surface "32 word"

fun handle :: "state \<Rightarrow> lib_event \<Rightarrow> state \<times> effects" where
  "handle st (New_xdg_surface a xdg_ptr xdg) = new_xdg_surface st a xdg_ptr xdg"
| "handle st (Signal a f xdg serial) = notify st a f xdg serial"

text \<open>A run of the event loop: the state it ends in and every event emitted, in order.\<close>

fun run :: "state \<Rightarrow> lib_event list \<Rightarrow> state \<times> event list" where
  "run st [] = (st, [])"
| "run st (e # es) =
     (let (st', eff) = handle st e;
          (st'', evs) = run st' es
      in (st'', emitted eff @ evs))"

text \<open>The wid carried by an event: the second argument of \<open>new-surface\<close>.\<close>

fun new_surface_wid :: "event \<Rightarrow> int option" where
  "new_surface_wid (n, args) =
     (if n = ''new-surface'' then
        (case args of (_ # PyInt w # _) \<Rightarrow> Some w | _ \<Rightarrow> None)
      else None)"

definition new_surface_wids :: "event list \<Rightarrow> int list" where
  "new_surface_wids evs = List.map_filter new_surface_wid evs"

text \<open>Whether an event is a \<open>surface-image\<close> or a \<open>destroy\<close> event.\<close>

definition is_surface_image :: "event \<Rightarrow> bool" where
  "is_surface_image ev = (fst ev = ''surface-image'')"

section \<open>The compositor object\<close>

text \<open>
  \<open>cdef class WaylandCompositor\<close>: the fields of its \<open>server\<close> struct (pointers, and
  for the three listeners whether they are linked), the socket name and the event
  loop. \<open>__cinit__\<close> zeroes the struct and sets the name to the empty string.
\<close>

record WaylandCompositor =
  srv_display :: uintptr_t
  srv_backend :: uintptr_t
  srv_renderer :: uintptr_t
  srv_allocator :: uintptr_t
  srv_compositor :: uintptr_t
  srv_xdg_shell :: uintptr_t
  srv_scene :: uintptr_t
  srv_seat :: uintptr_t
  srv_decoration_manager :: uintptr_t
  srv_new_toplevel_decoration :: bool
  srv_cursor :: uintptr_t
  srv_output_layout :: uintptr_t
  srv_seat_name :: string
  srv_new_output :: bool
  srv_new_xdg_surface :: bool
  socket_name :: string
  event_loop :: uintptr_t

definition cinit :: WaylandCompositor where
  "cinit = \<lparr>srv_display = 0, srv_backend = 0, srv_renderer = 0, srv_allocator = 0,
            srv_compositor = 0, srv_xdg_shell = 0, srv_scene = 0, srv_seat = 0,
            srv_decoration_manager = 0, srv_new_toplevel_decoration = False,
            srv_cursor = 0, srv_output_layout = 0, srv_seat_name = [],
            srv_new_output = False, srv_new_xdg_surface = False,
            socket_name = [], event_loop = 0\<rparr>"

text \<open>
  What the library answers to the calls \<open>initialize\<close> makes, one field per call, under
  the name of the library function. A pointer result is \<open>0\<close> when the call fails, the
  socket name is \<open>None\<close> for a \<open>NULL\<close> name.
\<close>

record wl_library =
  wl_display_create :: uintptr_t
  wl_display_get_event_loop :: uintptr_t
  wlr_headless_backend_create :: uintptr_t
  wlr_renderer_autocreate :: uintptr_t
  wlr_allocator_autocreate :: uintptr_t
  wlr_compositor_create :: uintptr_t
  wlr_xdg_shell_create :: uintptr_t
  wlr_scene_create :: uintptr_t
  wlr_output_layout_create :: uintptr_t
  wlr_xdg_decoration_manager_v1_create :: uintptr_t
  wlr_cursor_create :: uintptr_t
  wlr_seat_create :: uintptr_t
  wl_display_add_socket_auto :: "string option"
  wlr_backend_start :: bool

text \<open>
  How a method ends: it returns, it raises, or the process dies reading through a
  null pointer.
\<close>

datatype 'a outcome =
  Returned 'a | RuntimeError string | ValueError string | Null_dereference

text \<open>
  \<open>initialize\<close>, statement by statement. A \<open>raise\<close> follows the creation of the
  display, the backend, the renderer, the allocator, the output layout and the cursor,
  the socket and the start of the backend. The results of \<open>wlr_compositor_create\<close>
  and \<open>wlr_scene_create\<close> are stored and not looked at. \<open>wl_signal_add\<close> is given
  the address of a field of the XDG shell and \<open>wlr_seat_set_capabilities\<close> the seat,
  both unchecked: they read through the pointer. A missing decoration manager is only
  warned about.
\<close>

definition initialize :: "wl_library \<Rightarrow> state \<Rightarrow> WaylandCompositor \<Rightarrow> state \<times> WaylandCompositor \<times> string outcome" where
  "initialize lib st self =
     (let self = self\<lparr>srv_display := wl_display_create lib\<rparr> in
      if srv_display self = 0 then (st, self, RuntimeError ''Failed to create display'') else
      let self = self\<lparr>event_loop := wl_display_get_event_loop lib,
                      srv_backend := wlr_headless_backend_create lib\<rparr> in
      if srv_backend self = 0 then (st, self, RuntimeError ''Failed to create headless backend'') else
      let self = self\<lparr>srv_renderer := wlr_renderer_autocreate lib\<rparr> in
      if srv_renderer self = 0 then (st, self, RuntimeError ''Failed to create renderer'') else
      let self = self\<lparr>srv_allocator := wlr_allocator_autocreate lib\<rparr> in
      if srv_allocator self = 0 then (st, self, RuntimeError ''Failed to create allocator'') else
      let self = self\<lparr>srv_compositor := wlr_compositor_create lib,
                      srv_xdg_shell := wlr_xdg_shell_create lib\<rparr> in
      if srv_xdg_shell self = 0 then (st, self, Null_dereference) else
      let self = self\<lparr>srv_new_xdg_surface := True,
                      srv_scene := wlr_scene_create lib,
                      srv_output_layout := wlr_output_layout_create lib\<rparr> in
      if srv_output_layout self = 0 then (st, self, RuntimeError ''Failed to create output layout'') else
      let self = self\<lparr>srv_decoration_manager := wlr_xdg_decoration_manager_v1_create lib\<rparr> in
      let self = (if srv_decoration_manager self = 0 then self
                  else self\<lparr>srv_new_toplevel_decoration := True\<rparr>) in
      let self = self\<lparr>srv_cursor := wlr_cursor_create lib\<rparr> in
      if srv_cursor self = 0 then (st, self, RuntimeError ''Failed to create cursor'') else
      let self = self\<lparr>srv_seat_name := ''seat0'', srv_seat := wlr_seat_create lib\<rparr> in
      if srv_seat self = 0 then (st, self, Null_dereference) else
      let self = self\<lparr>srv_new_output := True\<rparr> in
      (case wl_display_add_socket_auto lib of
         None \<Rightarrow> (st, self, RuntimeError ''Failed to add socket'')
       | Some bname \<Rightarrow>
           let self = self\<lparr>socket_name := bname\<rparr> in
           if \<not> wlr_backend_start lib then (st, self, RuntimeError ''Failed to start backend'')
           else (st\<lparr>environ := (environ st)(''WAYLAND_DISPLAY'' \<mapsto> socket_name self)\<rparr>,
                 self, Returned (socket_name self))))"

text \<open>
  \<open>cleanup\<close>. Nothing is done without a display. \<open>wl_display_destroy_clients\<close> makes
  the library deliver the signals of the clients' surfaces; \<open>signals\<close> are those
  deliveries, in order. Then the three listeners are unlinked and the objects
  destroyed, each pointer the code resets set to \<open>NULL\<close>.
\<close>

fun signal_event :: "uintptr_t \<times> listener_field \<times> wlr_xdg_surface \<times> 32 word \<Rightarrow> lib_event" where
  "signal_event (a, f, xdg, serial) = Signal a f xdg serial"

definition cleanup :: "(uintptr_t \<times> listener_field \<times> wlr_xdg_surface \<times> 32 word) list \<Rightarrow> state \<Rightarrow> WaylandCompositor \<Rightarrow> state \<times> WaylandCompositor \<times> event list" where
  "cleanup signals st self =
     (if srv_display self = 0 then (st, self, [])
      else
        (let (st', evs) = run st (map signal_event signals)
         in (st',
             self\<lparr>srv_new_xdg_surface := False, srv_new_output := False,
                  srv_new_toplevel_decoration := False,
                  srv_scene := 0, srv_cursor := 0, srv_output_layout := 0, srv_seat := 0,
                  srv_allocator := 0, srv_renderer := 0, srv_backend := 0, srv_display := 0\<rparr>,
             evs)))"

text \<open>
  The keyboard facade of \<open>keyboard.pyx\<close>: \<open>__init__\<close> rejects a null seat and leaves
  the \<open>keyboard\<close> member unset.
\<close>

record WaylandKeyboard =
  kb_seat :: uintptr_t
  kb_keyboard :: uintptr_t

definition WaylandKeyboard_init :: "uintptr_t \<Rightarrow> WaylandKeyboard outcome" where
  "WaylandKeyboard_init seat_ptr =
     (if seat_ptr = 0 then ValueError ''seat pointer is NULL''
      else Returned \<lparr>kb_seat = seat_ptr, kb_keyboard = 0\<rparr>)"

text \<open>\<open>get_keyboard_device\<close>: \<open>return None\<close>, the constructor call is commented out.\<close>

definition get_keyboard_device :: "WaylandCompositor \<Rightarrow> WaylandKeyboard option" where
  "get_keyboard_device self = None"

section \<open>The public methods of the compositor object\<close>

text \<open>
  Modelled from the spec: the pointer facade \<open>WaylandPointer\<close> of
  \<open>xpra/wayland/pointer.pyx\<close>, which is not among the sources: it is "constructed
  from the seat and cursor handles".
\<close>

record WaylandPointer =
  ptr_seat :: uintptr_t
  ptr_cursor :: uintptr_t

text \<open>\<open>get_pointer_device\<close>: \<open>WaylandPointer(self.srv.seat, self.srv.cursor)\<close>.\<close>

definition get_pointer_device :: "WaylandCompositor \<Rightarrow> WaylandPointer" where
  "get_pointer_device self = \<lparr>ptr_seat = srv_seat self, ptr_cursor = srv_cursor self\<rparr>"

text \<open>What a public method can return to its caller.\<close>

datatype pyobject =
  Py_None | Py_str string | Py_int int | Py_pointer WaylandPointer | Py_keyboard WaylandKeyboard

text \<open>
  A call of one of the nine public methods of \<open>WaylandCompositor\<close>, with what the
  library does during the call: its answers for \<open>initialize\<close>, the descriptor
  \<open>wl_event_loop_get_fd\<close> returns, the events it dispatches in \<open>process_events\<close>
  and in a \<open>run\<close> that returns, the signals it delivers in \<open>cleanup\<close>.
  \<open>resize\<close> and \<open>focus\<close> get the address of a native surface and read its
  toplevel through it.
\<close>

datatype api_call =
  M_initialize wl_library
  | M_get_event_loop_fd int
  | M_process_events "lib_event list"
  | M_run "lib_event list"
  | M_cleanup "(uintptr_t \<times> listener_field \<times> wlr_xdg_surface \<times> 32 word) list"
  | M_get_pointer_device
  | M_get_keyboard_device
  | M_resize uintptr_t int int
  | M_focus uintptr_t bool

fun call :: "api_call \<Rightarrow> state \<Rightarrow> WaylandCompositor \<Rightarrow> state \<times> WaylandCompositor \<times> pyobject outcome" where
  "call (M_initialize lib) st self =
     (case initialize lib st self of
        (st', self', Returned name) \<Rightarrow> (st', self', Returned (Py_str name))
      | (st', self', RuntimeError msg) \<Rightarrow> (st', self', RuntimeError msg)
      | (st', self', ValueError msg) \<Rightarrow> (st', self', ValueError msg)
      | (st', self', Null_dereference) \<Rightarrow> (st', self', Null_dereference))"
| "call (M_get_event_loop_fd fd) st self = (st, self, Returned (Py_int fd))"
| "call (M_process_events es) st self = (fst (run st es), self, Returned Py_None)"
| "call (M_run es) st self = (fst (run st es), self, Returned Py_None)"
| "call (M_cleanup signals) st self =
     (case cleanup signals st self of (st', self', evs) \<Rightarrow> (st', self', Returned Py_None))"
| "call M_get_pointer_device st self = (st, self, Returned (Py_pointer (get_pointer_device self)))"
| "call M_get_keyboard_device st self =
     (st, self, Returned (case get_keyboard_device self of
                            None \<Rightarrow> Py_None | Some keyboard \<Rightarrow> Py_keyboard keyboard))"
| "call (M_resize surf w h) st self =
     (st, self, if surf = 0 then Null_dereference else Returned Py_None)"
| "call (M_focus surf focused) st self =
     (st, self, if surf = 0 then Null_dereference else Returned Py_None)"

text \<open>The results of a sequence of calls on one compositor object, in order.\<close>

fun calls_results :: "api_call list \<Rightarrow> state \<Rightarrow> WaylandCompositor \<Rightarrow> pyobject outcome list" where
  "calls_results [] st self = []"
| "calls_results (m # ms) st self =
     (case call m st self of (st', self', r) \<Rightarrow> r # calls_results ms st' self')"

section \<open>Observations on runs, and concrete inputs\<close>

text \<open>The two library calls that make up the first configure of a toplevel.\<close>

fun is_configure_call :: "lib_call \<Rightarrow> bool" where
  "is_configure_call (wlr_xdg_toplevel_set_size w h) = True"
| "is_configure_call wlr_xdg_surface_schedule_configure = True"
| "is_configure_call _ = False"

text \<open>
  The library events that make \<open>new_xdg_surface\<close> allocate a record, and how many of
  them a run holds: the number of increments of the global \<open>wid\<close>.
\<close>

fun creates_record :: "lib_event \<Rightarrow> bool" where
  "creates_record (New_xdg_surface a p xdg) = (role xdg \<noteq> WLR_XDG_SURFACE_ROLE_POPUP)"
| "creates_record (Signal a f xdg serial) = False"

definition creations :: "lib_event list \<Rightarrow> nat" where
  "creations es = length (filter creates_record es)"

text \<open>The wids written into the records a run allocates, in the order of allocation.\<close>

fun assigned_wids :: "state \<Rightarrow> lib_event list \<Rightarrow> 64 word list" where
  "assigned_wids st [] = []"
| "assigned_wids st (e # es) =
     (let st' = fst (handle st e)
      in (case e of
            New_xdg_surface a p xdg \<Rightarrow>
              (if creates_record e
               then (case surfaces st' a of None \<Rightarrow> [] | Some r \<Rightarrow> [surface_wid r])
               else [])
          | Signal a f xdg serial \<Rightarrow> [])
         @ assigned_wids st' es)"

text \<open>The native surfaces whose title and app id can both be decoded.\<close>

definition decodable :: "wlr_xdg_surface \<Rightarrow> bool" where
  "decodable xdg = (title_of xdg \<noteq> None \<and> app_id_of xdg \<noteq> None)"

text \<open>A record with wid 1 and every listener linked; a toplevel that just appeared.\<close>

definition example_record :: xdg_surface where
  "example_record = \<lparr>wlr_xdg_surface_ptr = 8192, linked = (\<lambda>f. True), width = 0, height = 0,
                      surface_wid = 1\<rparr>"

definition example_toplevel :: wlr_xdg_surface where
  "example_toplevel =
     \<lparr>role = WLR_XDG_SURFACE_ROLE_TOPLEVEL,
      surface = \<lparr>buffer = None, mapped = False, buffer_damage = []\<rparr>,
      toplevel = Some \<lparr>title = None, app_id = None\<rparr>,
      initialized = False, configured = False,
      geometry = \<lparr>box_x = 0, box_y = 0, box_width = 0, box_height = 0\<rparr>\<rparr>"

text \<open>The same toplevel with a title of the single byte \<open>0xFF\<close>, which is not UTF-8.\<close>

definition undecodable_toplevel :: wlr_xdg_surface where
  "undecodable_toplevel = example_toplevel\<lparr>toplevel := Some \<lparr>title = Some [0xFF], app_id = None\<rparr>\<rparr>"

text \<open>The same toplevel with one damage box of 4 by 2, mapped or not.\<close>

definition damaged_surface :: "bool \<Rightarrow> wlr_xdg_surface" where
  "damaged_surface m =
     example_toplevel\<lparr>surface := \<lparr>buffer = None, mapped = m,
                                   buffer_damage = [\<lparr>x1 = 0, y1 = 0, x2 = 4, y2 = 2\<rparr>]\<rparr>\<rparr>"

text \<open>A mapped toplevel whose 4 by 2 texture cannot be read back.\<close>

definition unreadable_surface :: wlr_xdg_surface where
  "unreadable_surface =
     example_toplevel\<lparr>surface :=
       \<lparr>buffer = Some \<lparr>texture = Some \<lparr>tex_width = 4, tex_height = 2, read_pixels = None\<rparr>\<rparr>,
        mapped = True, buffer_damage = [\<lparr>x1 = 0, y1 = 0, x2 = 4, y2 = 2\<rparr>]\<rparr>\<rparr>"

definition one_surface_state :: state where
  "one_surface_state = \<lparr>wid = 1, debug = False, surfaces = [4096 \<mapsto> example_record],
                        environ = Map.empty\<rparr>"

text \<open>
  A mapped toplevel with a texture of 32768 by 32768 pixels that the library reads,
  writing the bytes \<open>written\<close>.
\<close>

definition huge_texture_surface :: "8 word list \<Rightarrow> wlr_xdg_surface" where
  "huge_texture_surface written =
     example_toplevel\<lparr>surface :=
       \<lparr>buffer = Some \<lparr>texture = Some \<lparr>tex_width = 32768, tex_height = 32768,
                                        read_pixels = Some written\<rparr>\<rparr>,
        mapped = True, buffer_damage = []\<rparr>\<rparr>"

text \<open>A library every call of which succeeds.\<close>

definition good_library :: wl_library where
  "good_library =
     \<lparr>wl_display_create = 4096, wl_display_get_event_loop = 4352,
      wlr_headless_backend_create = 4608, wlr_renderer_autocreate = 4864,
      wlr_allocator_autocreate = 5120, wlr_compositor_create = 5376,
      wlr_xdg_shell_create = 5632, wlr_scene_create = 5888,
      wlr_output_layout_create = 6144, wlr_xdg_decoration_manager_v1_create = 6400,
      wlr_cursor_create = 6656, wlr_seat_create = 6912,
      wl_display_add_socket_auto = Some ''wayland-1'', wlr_backend_start = True\<rparr>"

text \<open>A compositor object after a successful \<open>initialize\<close>.\<close>

definition running_compositor :: WaylandCompositor where
  "running_compositor = fst (snd (initialize good_library (initial_state False) cinit))"

section \<open>Event bus: properties\<close>

lemma no_empty_lists_empty: "no_empty_lists Map.empty"
  by (simp add: no_empty_lists_def)

lemma no_empty_lists_add:
  "no_empty_lists el \<Longrightarrow> no_empty_lists (add_event_listener el n cb)"
  by (simp add: no_empty_lists_def add_event_listener_def)

lemma no_empty_lists_remove:
  "no_empty_lists el \<Longrightarrow> no_empty_lists (remove_event_listener el n cb)"
  by (auto simp: no_empty_lists_def remove_event_listener_def Let_def split: option.splits)

text \<open>Callbacks run in the order of their registration.\<close>

lemma emit_registration_order:
  "emit (add_event_listener el n cb) n args = emit el n args @ [(cb, args)]"
  by (simp add: emit_def add_event_listener_def split: option.splits)

lemma remove1_append_fresh: "cb \<notin> set xs \<Longrightarrow> remove1 cb (xs @ [cb]) = xs"
  by (induction xs) auto

text \<open>
  Claim C5, as the code has it. When \<open>cb\<close> is not yet registered under \<open>n\<close> (and \<open>n\<close> is
  not bound to an empty list), \<open>add_event_listener(n, cb)\<close> followed by
  \<open>remove_event_listener(n, cb)\<close> gives back the bus it started from, and one more
  \<open>remove_event_listener(n, cb)\<close> changes nothing.
\<close>

theorem add_remove_restores_bus:
  assumes "el n \<noteq> Some []"
    and "cb \<notin> set (case el n of None \<Rightarrow> [] | Some cbs \<Rightarrow> cbs)"
  shows "remove_event_listener (add_event_listener el n cb) n cb = el
       \<and> remove_event_listener (remove_event_listener (add_event_listener el n cb) n cb) n cb
           = remove_event_listener (add_event_listener el n cb) n cb"
proof -
  have restored: "remove_event_listener (add_event_listener el n cb) n cb = el"
  proof (cases "el n")
    case None
    then have "el(n := None) = el" by auto
    with None show ?thesis
      by (simp add: remove_event_listener_def add_event_listener_def)
  next
    case (Some cbs)
    with assms have "cbs \<noteq> []" and fresh: "cb \<notin> set cbs" by auto
    then have "remove1 cb (cbs @ [cb]) = cbs" by (simp add: remove1_append_fresh)
    moreover have "el(n \<mapsto> cbs) = el" using Some by auto
    ultimately show ?thesis using Some \<open>cbs \<noteq> []\<close>
      by (simp add: remove_event_listener_def add_event_listener_def Let_def)
  qed
  have noop: "remove_event_listener el n cb = el"
    using assms by (auto simp: remove_event_listener_def split: option.splits)
  from restored noop show ?thesis by simp
qed

theorem add_remove_restores_bus_witness:
  "remove_event_listener (add_event_listener [''map'' \<mapsto> [2::nat]] ''map'' 1) ''map'' 1
     = [''map'' \<mapsto> [2]]
   \<and> remove_event_listener
       (remove_event_listener (add_event_listener [''map'' \<mapsto> [2::nat]] ''map'' 1) ''map'' 1)
       ''map'' 1
     = remove_event_listener (add_event_listener [''map'' \<mapsto> [2::nat]] ''map'' 1) ''map'' 1"
proof -
  have h1: "[''map'' \<mapsto> [2::nat]] ''map'' \<noteq> Some []" by simp
  have h2: "(1::nat) \<notin> set (case [''map'' \<mapsto> [2::nat]] ''map'' of None \<Rightarrow> [] | Some cbs \<Rightarrow> cbs)"
    by simp
  show ?thesis
    by (rule add_remove_restores_bus [of "[''map'' \<mapsto> [2::nat]]" "''map''" 1, OF h1 h2])
qed

text \<open>
  Claim C5 as stated fails when \<open>cb\<close> is already registered: the new entry goes to the
  end of the list and \<open>remove\<close> drops the first one. With callbacks \<open>1\<close> and \<open>2\<close>
  registered under \<open>map\<close> in that order, add-then-remove of \<open>1\<close> leaves \<open>[2, 1]\<close>.
\<close>

theorem add_remove_duplicate_counterexample:
  "remove_event_listener (add_event_listener [''map'' \<mapsto> [1::nat, 2]] ''map'' 1) ''map'' 1 ''map''
     = Some [2, 1]
   \<and> remove_event_listener (add_event_listener [''map'' \<mapsto> [1::nat, 2]] ''map'' 1) ''map'' 1
     \<noteq> [''map'' \<mapsto> [1, 2]]"
proof -
  have a: "remove_event_listener (add_event_listener [''map'' \<mapsto> [1::nat, 2]] ''map'' 1) ''map'' 1 ''map''
     = Some [2, 1]"
    by (simp add: remove_event_listener_def add_event_listener_def)
  have "[''map'' \<mapsto> [1::nat, 2]] ''map'' \<noteq> Some [2, 1]" by simp
  with a show ?thesis by metis
qed

section \<open>Surface commit\<close>

lemma capture_no_configure:
  "filter is_configure_call (calls (capture_surface_pixels surf xdg)) = []"
  by (simp add: capture_surface_pixels_def no_effects_def then_effects_def emits_def Let_def
      split: option.splits)

lemma commit_configure_calls:
  "filter is_configure_call (calls (xdg_surface_commit surf xdg)) =
     (if toplevel xdg \<noteq> None \<and> initialized xdg \<and> \<not> configured xdg
      then [wlr_xdg_toplevel_set_size 800 600, wlr_xdg_surface_schedule_configure] else [])"
  by (simp add: xdg_surface_commit_def then_effects_def no_effects_def emits_def Let_def
      capture_no_configure)

text \<open>
  Claim C6. A commit of a toplevel that is initialized and not yet configured makes
  the handler call \<open>wlr_xdg_toplevel_set_size(toplevel, 800, 600)\<close> once and
  \<open>wlr_xdg_surface_schedule_configure\<close> once, in that order, and nothing else of
  the kind; a commit of a configured surface makes neither call.
\<close>

theorem initial_configure_sent_once:
  "(toplevel xdg \<noteq> None \<and> initialized xdg \<and> \<not> configured xdg \<longrightarrow>
      filter is_configure_call (calls (xdg_surface_commit surf xdg))
        = [wlr_xdg_toplevel_set_size 800 600, wlr_xdg_surface_schedule_configure])
   \<and> (configured xdg \<longrightarrow>
      filter is_configure_call (calls (xdg_surface_commit surf xdg)) = [])"
  by (simp add: commit_configure_calls)

theorem initial_configure_sent_once_witness:
  "filter is_configure_call
     (calls (xdg_surface_commit example_record (example_toplevel\<lparr>initialized := True\<rparr>)))
     = [wlr_xdg_toplevel_set_size 800 600, wlr_xdg_surface_schedule_configure]
   \<and> filter is_configure_call
     (calls (xdg_surface_commit example_record
        (example_toplevel\<lparr>initialized := True, configured := True\<rparr>))) = []"
  using initial_configure_sent_once [of "example_toplevel\<lparr>initialized := True\<rparr>" example_record]
    initial_configure_sent_once
      [of "example_toplevel\<lparr>initialized := True, configured := True\<rparr>" example_record]
  by (simp add: example_toplevel_def)

lemma capture_emits_no_commit:
  "filter (\<lambda>e. fst e = ''commit'') (emitted (capture_surface_pixels surf xdg)) = []"
  by (simp add: capture_surface_pixels_def no_effects_def then_effects_def emits_def Let_def
      split: option.splits)

text \<open>
  Claim C2, as the code has it. Every commit emits one \<open>commit(wid, mapped, rects)\<close>
  event. For a mapped surface \<open>rects\<close> are the rectangles of its \<open>buffer_damage\<close>
  region, one per box, so they are empty only when there is no damage; for a surface
  that is not mapped \<open>rects\<close> is the empty list.
\<close>

theorem commit_carries_damage_when_mapped:
  "filter (\<lambda>e. fst e = ''commit'') (emitted (xdg_surface_commit surf xdg))
     = [(''commit'',
         [PyInt (uint (surface_wid surf)), PyBool (mapped (surface xdg)),
          PyList (if mapped (surface xdg)
                  then get_damage_areas (buffer_damage (surface xdg)) else [])])]
   \<and> (get_damage_areas (buffer_damage (surface xdg)) = [] \<longleftrightarrow> buffer_damage (surface xdg) = [])"
  by (simp add: xdg_surface_commit_def then_effects_def no_effects_def emits_def Let_def
      capture_emits_no_commit get_damage_areas_def)

theorem commit_carries_damage_when_mapped_witness:
  "filter (\<lambda>e. fst e = ''commit'') (emitted (xdg_surface_commit example_record (damaged_surface True)))
     = [(''commit'', [PyInt 1, PyBool True, PyList [PyTuple [PyInt 0, PyInt 0, PyInt 4, PyInt 2]]])]"
  using commit_carries_damage_when_mapped [of example_record "damaged_surface True"]
  by (simp add: damaged_surface_def example_toplevel_def example_record_def get_damage_areas_def)

text \<open>
  Claim C2 as stated fails on a surface that is not mapped: its damage region holds the
  box \<open>(0, 0, 4, 2)\<close> and the \<open>commit\<close> event carries no rectangle.
\<close>

theorem commit_unmapped_counterexample:
  "get_damage_areas (buffer_damage (surface (damaged_surface False)))
     = [PyTuple [PyInt 0, PyInt 0, PyInt 4, PyInt 2]]
   \<and> emitted (xdg_surface_commit example_record (damaged_surface False))
     = [(''commit'', [PyInt 1, PyBool False, PyList []])]"
  by (simp add: damaged_surface_def example_toplevel_def example_record_def get_damage_areas_def
      xdg_surface_commit_def then_effects_def no_effects_def emits_def Let_def)

text \<open>
  Claim C8. A commit of a mapped surface whose texture cannot be read emits the
  \<open>commit\<close> event alone, with no \<open>surface-image\<close> event; the module's state is
  what it was, the record is still allocated, and a later signal for it is handled
  as before: an \<open>unmap\<close> emits \<open>unmap(wid)\<close>.
\<close>

theorem readback_failure_drops_frame:
  assumes "surfaces st a = Some surf" and "linked surf L_commit"
    and "mapped (surface xdg)"
    and "buffer (surface xdg) = Some cb" and "texture cb = Some tex"
    and "read_pixels tex = None"
  shows "emitted (snd (notify st a L_commit xdg serial))
           = [(''commit'', [PyInt (uint (surface_wid surf)), PyBool True,
                            PyList (get_damage_areas (buffer_damage (surface xdg)))])]
       \<and> \<not> list_ex is_surface_image (emitted (snd (notify st a L_commit xdg serial)))
       \<and> fst (notify st a L_commit xdg serial) = st
       \<and> surfaces (fst (notify st a L_commit xdg serial)) a = Some surf
       \<and> (linked surf L_unmap \<longrightarrow>
            emitted (snd (notify (fst (notify st a L_commit xdg serial)) a L_unmap xdg' serial'))
              = [(''unmap'', [PyInt (uint (surface_wid surf))])])"
proof -
  have n: "notify st a L_commit xdg serial = (st, xdg_surface_commit surf xdg)"
    using assms(1,2) by (simp add: notify_def)
  have "emitted (capture_surface_pixels surf xdg) = []"
    using assms(4,5,6) by (simp add: capture_surface_pixels_def Let_def)
  then have e: "emitted (xdg_surface_commit surf xdg)
           = [(''commit'', [PyInt (uint (surface_wid surf)), PyBool True,
                            PyList (get_damage_areas (buffer_damage (surface xdg)))])]"
    using assms(3)
    by (simp add: xdg_surface_commit_def then_effects_def no_effects_def emits_def Let_def)
  have u: "linked surf L_unmap \<longrightarrow>
            emitted (snd (notify st a L_unmap xdg' serial'))
              = [(''unmap'', [PyInt (uint (surface_wid surf))])]"
    using assms(1) by (simp add: notify_def xdg_surface_unmap_def emits_def)
  from n e u assms(1) show ?thesis by (simp add: is_surface_image_def)
qed

theorem readback_failure_drops_frame_witness:
  "emitted (snd (notify one_surface_state 4096 L_commit unreadable_surface 0))
     = [(''commit'', [PyInt 1, PyBool True, PyList [PyTuple [PyInt 0, PyInt 0, PyInt 4, PyInt 2]]])]
   \<and> surfaces (fst (notify one_surface_state 4096 L_commit unreadable_surface 0)) 4096
       = Some example_record
   \<and> emitted (snd (notify (fst (notify one_surface_state 4096 L_commit unreadable_surface 0))
                      4096 L_unmap unreadable_surface 0))
       = [(''unmap'', [PyInt 1])]"
proof -
  have h1: "surfaces one_surface_state 4096 = Some example_record"
    by (simp add: one_surface_state_def)
  have h2: "linked example_record L_commit" by (simp add: example_record_def)
  have h3: "mapped (surface unreadable_surface)" by (simp add: unreadable_surface_def)
  have h4: "buffer (surface unreadable_surface)
            = Some \<lparr>texture = Some \<lparr>tex_width = 4, tex_height = 2, read_pixels = None\<rparr>\<rparr>"
    by (simp add: unreadable_surface_def)
  have h5: "texture \<lparr>texture = Some \<lparr>tex_width = 4, tex_height = 2, read_pixels = None\<rparr>\<rparr>
            = Some \<lparr>tex_width = 4, tex_height = 2, read_pixels = None\<rparr>" by simp
  have h6: "read_pixels \<lparr>tex_width = 4, tex_height = 2, read_pixels = None\<rparr> = None" by simp
  have d: "get_damage_areas (buffer_damage (surface unreadable_surface))
           = [PyTuple [PyInt 0, PyInt 0, PyInt 4, PyInt 2]]"
    by (simp add: unreadable_surface_def get_damage_areas_def)
  have w: "uint (surface_wid example_record) = 1" and l: "linked example_record L_unmap"
    by (simp_all add: example_record_def)
  note T = readback_failure_drops_frame [OF h1 h2 h3 h4 h5 h6, of 0 unreadable_surface 0]
  from T [unfolded d w] l show ?thesis by blast
qed

section \<open>Readback\<close>

text \<open>
  Claim C4, at a texture of 32768 by 32768 pixels that the library reads, whatever
  it writes. The \<open>uint32_t\<close> product \<open>stride * height\<close> is \<open>2 ^ 32\<close> and wraps to
  \<open>0\<close>: the event carries an image of stride 131072 and height 32768 with no byte
  at all.
\<close>

theorem surface_image_size_wraps:
  "emitted (capture_surface_pixels example_record (huge_texture_surface written))
     = [(''surface-image'',
         [PyInt 1,
          PyImage \<lparr>img_x = 0, img_y = 0, img_width = 32768, img_height = 32768,
                   img_pixels = [], img_pixel_format = ''BGRA'', img_depth = 32,
                   img_rowstride = 131072\<rparr>])]"
  by (simp add: capture_surface_pixels_def huge_texture_surface_def example_toplevel_def
      example_record_def Let_def then_effects_def emits_def buffer_contents_def)

lemma buffer_contents_length: "length (buffer_contents n written) = n"
  by (simp add: buffer_contents_def)

lemma unat_mult_no_overflow:
  fixes a b :: "32 word"
  assumes "unat a * unat b < 2 ^ 32"
  shows "unat (a * b) = unat a * unat b"
  using assms by (simp add: unat_word_ariths)

text \<open>
  Where neither product overflows, the image of a \<open>surface-image\<close> event has the
  texture's dimensions, a stride of four times its width and stride times height bytes.
\<close>

lemma surface_image_size_without_overflow:
  assumes "buffer (surface xdg) = Some cb" and "texture cb = Some tex"
    and "read_pixels tex = Some written"
    and "4 * unat (tex_width tex) < 2 ^ 32"
    and "4 * unat (tex_width tex) * unat (tex_height tex) < 2 ^ 32"
  shows "\<exists>img. emitted (capture_surface_pixels surf xdg)
                 = [(''surface-image'', [PyInt (uint (surface_wid surf)), PyImage img])]
             \<and> img_width img = uint (tex_width tex) \<and> img_height img = uint (tex_height tex)
             \<and> int (length (img_pixels img)) = img_rowstride img * img_height img
             \<and> img_rowstride img = 4 * img_width img"
proof -
  let ?w = "tex_width tex" and ?h = "tex_height tex"
  have "unat ?w * unat (4 :: 32 word) < 2 ^ 32" using assms(4) by simp
  then have "unat (?w * 4) = unat ?w * unat (4 :: 32 word)" by (rule unat_mult_no_overflow)
  then have s: "unat (?w * 4) = unat ?w * 4" by simp
  have "unat (?w * 4) * unat ?h < 2 ^ 32" using assms(5) s by (simp add: mult.commute)
  then have "unat (?w * 4 * ?h) = unat (?w * 4) * unat ?h" by (rule unat_mult_no_overflow)
  then have t: "unat (?w * 4 * ?h) = unat ?w * 4 * unat ?h" using s by simp
  have s': "uint (?w * 4) = 4 * uint ?w"
  proof -
    have "uint (?w * 4) = int (unat (?w * 4))" by (rule uint_nat)
    also have "\<dots> = int (unat ?w * 4)" by (simp only: s)
    also have "\<dots> = 4 * uint ?w" by simp
    finally show ?thesis .
  qed
  have t': "int (unat (?w * 4 * ?h)) = 4 * uint ?w * uint ?h"
  proof -
    have "int (unat (?w * 4 * ?h)) = int (unat ?w * 4 * unat ?h)" by (simp only: t)
    also have "\<dots> = 4 * uint ?w * uint ?h" by simp
    finally show ?thesis .
  qed
  show ?thesis
    using assms(1,2,3) s' t'
    by (simp add: capture_surface_pixels_def Let_def then_effects_def emits_def
        buffer_contents_length)
qed

section \<open>Decoding titles and app ids\<close>

text \<open>
  The decoder on ASCII, on two-, three- and four-byte sequences, and on the inputs it
  rejects: a byte that starts nothing, an overlong form, a surrogate, a truncated or
  broken sequence, a code point beyond the last one.
\<close>

lemma decode_utf8_accepts:
  "decode_utf8 [0x68, 0x69] = Some [104, 105]"
  "decode_utf8 [0xC3, 0xA9] = Some [233]"
  "decode_utf8 [0xE2, 0x82, 0xAC] = Some [8364]"
  "decode_utf8 [0xF0, 0x9F, 0x98, 0x80] = Some [128512]"
  by (simp_all add: continuation_def payload_def)

lemma decode_utf8_rejects:
  "decode_utf8 [0xFF] = None"
  "decode_utf8 [0xC0, 0x80] = None"
  "decode_utf8 [0xED, 0xA0, 0x80] = None"
  "decode_utf8 [0xC3] = None"
  "decode_utf8 [0x68, 0xC3, 0x28] = None"
  "decode_utf8 [0xF4, 0x90, 0x80, 0x80] = None"
  by (simp_all add: continuation_def)

lemma decode_utf8_ascii:
  "\<forall>b \<in> set bs. b < 0x80 \<Longrightarrow> decode_utf8 bs = Some (map unat bs)"
  by (induction bs) simp_all

text \<open>
  A surface whose title cannot be decoded: \<open>map\<close> emits nothing for it, and
  \<open>new_xdg_surface\<close> allocates its record with wid 1 and emits nothing.
\<close>

lemma undecodable_title_not_decodable: "\<not> decodable undecodable_toplevel"
  by (simp add: decodable_def title_of_def undecodable_toplevel_def example_toplevel_def)

lemma map_of_undecodable_title:
  "emitted (xdg_surface_map example_record undecodable_toplevel) = []"
  by (simp add: xdg_surface_map_def with_strings_def title_of_def undecodable_toplevel_def
      example_toplevel_def no_effects_def)

lemma new_surface_of_undecodable_title:
  "emitted (snd (new_xdg_surface (initial_state False) 4096 8192 undecodable_toplevel)) = []
   \<and> map_option surface_wid
         (surfaces (fst (new_xdg_surface (initial_state False) 4096 8192 undecodable_toplevel)) 4096)
       = Some 1
   \<and> wid (fst (new_xdg_surface (initial_state False) 4096 8192 undecodable_toplevel)) = 1"
  by (simp add: new_xdg_surface_def Let_def with_strings_def title_of_def
      undecodable_toplevel_def example_toplevel_def initial_state_def then_effects_def
      no_effects_def)

lemma map_of_decodable_title:
  "decodable xdg \<Longrightarrow>
     emitted (xdg_surface_map surf xdg)
       = [(''map'', [PyInt (uint (surface_wid surf)), PyStr (the (title_of xdg)),
                     PyStr (the (app_id_of xdg)), size_of xdg])]"
  by (auto simp: xdg_surface_map_def with_strings_def decodable_def emits_def)

section \<open>Window identifiers\<close>

lemma new_surface_wids_append:
  "new_surface_wids (xs @ ys) = new_surface_wids xs @ new_surface_wids ys"
  by (simp add: new_surface_wids_def List.map_filter_def)

lemma new_surface_wids_Nil: "new_surface_wids [] = []"
  by (simp add: new_surface_wids_def List.map_filter_def)

lemma notify_wid: "wid (fst (notify st a f xdg s)) = wid st"
  by (simp add: notify_def xdg_surface_destroy_handler_def Let_def
      split: option.splits listener_field.splits)

lemma capture_no_new_surface:
  "new_surface_wids (emitted (capture_surface_pixels surf xdg)) = []"
  by (simp add: capture_surface_pixels_def new_surface_wids_def List.map_filter_def
      no_effects_def then_effects_def emits_def Let_def split: option.splits)

lemma commit_no_new_surface:
  "new_surface_wids (emitted (xdg_surface_commit surf xdg)) = []"
  using capture_no_new_surface [of surf xdg]
  by (simp add: xdg_surface_commit_def new_surface_wids_append then_effects_def Let_def
        no_effects_def emits_def)
     (simp add: new_surface_wids_def List.map_filter_def)

lemma with_strings_cases:
  "with_strings xdg rest = no_effects
   \<or> (\<exists>t i. title_of xdg = Some t \<and> app_id_of xdg = Some i \<and> with_strings xdg rest = rest t i)"
  by (simp add: with_strings_def split: option.splits)

lemma with_strings_decodable:
  "decodable xdg \<Longrightarrow> with_strings xdg rest = rest (the (title_of xdg)) (the (app_id_of xdg))"
  by (auto simp: with_strings_def decodable_def)

lemma with_strings_undecodable: "\<not> decodable xdg \<Longrightarrow> with_strings xdg rest = no_effects"
  by (auto simp: with_strings_def decodable_def split: option.splits)

lemma notify_no_new_surface:
  "new_surface_wids (emitted (snd (notify st a f xdg s))) = []"
proof (cases "surfaces st a")
  case None
  then show ?thesis by (simp add: notify_def no_effects_def new_surface_wids_Nil)
next
  case (Some surf)
  show ?thesis
  proof (cases "linked surf f")
    case False
    with Some show ?thesis by (simp add: notify_def no_effects_def new_surface_wids_Nil)
  next
    case True
    have other: "new_surface_wids (emitted (emits n args)) = []" if "n \<noteq> ''new-surface''" for n args
      using that by (simp add: emits_def new_surface_wids_def List.map_filter_def)
    have none: "new_surface_wids (emitted no_effects) = []"
      by (simp add: no_effects_def new_surface_wids_Nil)
    have destroy: "new_surface_wids (emitted (snd (xdg_surface_destroy_handler st a surf))) = []"
      by (simp add: xdg_surface_destroy_handler_def Let_def new_surface_wids_def List.map_filter_def)
    show ?thesis
    proof (cases f)
      case L_map
      have "new_surface_wids (emitted (xdg_surface_map surf xdg)) = []"
        by (cases "decodable xdg")
           (simp_all add: xdg_surface_map_def with_strings_decodable with_strings_undecodable
              other none)
      with L_map Some True show ?thesis by (simp add: notify_def)
    next
      case L_unmap
      with Some True show ?thesis by (simp add: notify_def xdg_surface_unmap_def other)
    next
      case L_destroy
      with Some True show ?thesis by (simp add: notify_def destroy)
    next
      case L_commit
      with Some True show ?thesis by (simp add: notify_def commit_no_new_surface)
    next
      case L_request_move
      with Some True show ?thesis by (simp add: notify_def xdg_toplevel_request_move_def other)
    next
      case L_request_resize
      with Some True show ?thesis by (simp add: notify_def xdg_toplevel_request_resize_def other)
    next
      case L_request_maximize
      with Some True show ?thesis by (simp add: notify_def xdg_toplevel_request_maximize_def other)
    next
      case L_request_fullscreen
      with Some True show ?thesis by (simp add: notify_def xdg_toplevel_request_fullscreen_def other)
    next
      case L_request_minimize
      with Some True show ?thesis by (simp add: notify_def xdg_toplevel_request_minimize_def other)
    next
      case L_set_title
      with Some True show ?thesis by (simp add: notify_def xdg_toplevel_set_title_handler_def none)
    next
      case L_set_app_id
      with Some True show ?thesis by (simp add: notify_def xdg_toplevel_set_app_id_handler_def none)
    qed
  qed
qed

text \<open>
  A popup changes nothing. Any other new surface advances the counter by one and
  writes the new value into the record at the address \<open>calloc\<close> returned; it is
  announced with that wid when its strings can be decoded, and not at all otherwise.
\<close>

lemma new_xdg_surface_popup:
  "role xdg = WLR_XDG_SURFACE_ROLE_POPUP \<Longrightarrow> new_xdg_surface st a p xdg = (st, no_effects)"
  by (simp add: new_xdg_surface_def)

lemma new_xdg_surface_wid:
  "role xdg \<noteq> WLR_XDG_SURFACE_ROLE_POPUP \<Longrightarrow>
     wid (fst (new_xdg_surface st a p xdg)) = wid st + 1"
  by (cases "role xdg") (simp_all add: new_xdg_surface_def Let_def)

lemma new_xdg_surface_record:
  "role xdg \<noteq> WLR_XDG_SURFACE_ROLE_POPUP \<Longrightarrow>
     map_option surface_wid (surfaces (fst (new_xdg_surface st a p xdg)) a) = Some (wid st + 1)"
  by (cases "role xdg") (simp_all add: new_xdg_surface_def Let_def)

lemma new_xdg_surface_announced:
  "role xdg \<noteq> WLR_XDG_SURFACE_ROLE_POPUP \<Longrightarrow>
     new_surface_wids (emitted (snd (new_xdg_surface st a p xdg)))
       = (if decodable xdg then [uint (wid st + 1)] else [])"
proof (cases "decodable xdg")
  case True
  assume "role xdg \<noteq> WLR_XDG_SURFACE_ROLE_POPUP"
  with True show ?thesis
    by (cases "role xdg")
       (simp_all add: new_xdg_surface_def Let_def with_strings_decodable then_effects_def
          emits_def new_surface_wids_def List.map_filter_def)
next
  case False
  assume "role xdg \<noteq> WLR_XDG_SURFACE_ROLE_POPUP"
  with False show ?thesis
    by (cases "role xdg")
       (simp_all add: new_xdg_surface_def Let_def with_strings_undecodable then_effects_def
          no_effects_def new_surface_wids_Nil)
qed

lemma handle_no_creation:
  "\<not> creates_record e \<Longrightarrow>
     wid (fst (handle st e)) = wid st \<and> new_surface_wids (emitted (snd (handle st e))) = []"
proof (cases e)
  case (New_xdg_surface a p xdg)
  assume "\<not> creates_record e"
  with New_xdg_surface show ?thesis
    by (simp add: new_xdg_surface_popup no_effects_def new_surface_wids_Nil)
next
  case (Signal a f xdg s)
  then show ?thesis by (simp add: notify_wid notify_no_new_surface)
qed

lemma handle_creation:
  assumes "creates_record e"
  shows "wid (fst (handle st e)) = wid st + 1"
    and "new_surface_wids (emitted (snd (handle st e))) = [uint (wid st + 1)]
         \<or> new_surface_wids (emitted (snd (handle st e))) = []"
    and "assigned_wids st (e # es) = (wid st + 1) # assigned_wids (fst (handle st e)) es"
proof -
  from assms obtain a p xdg where e: "e = New_xdg_surface a p xdg"
    and r: "role xdg \<noteq> WLR_XDG_SURFACE_ROLE_POPUP"
    by (cases e) simp_all
  show "wid (fst (handle st e)) = wid st + 1" using e r by (simp add: new_xdg_surface_wid)
  show "new_surface_wids (emitted (snd (handle st e))) = [uint (wid st + 1)]
         \<or> new_surface_wids (emitted (snd (handle st e))) = []"
    using e r by (simp add: new_xdg_surface_announced)
  from new_xdg_surface_record [OF r, of st a p]
  obtain rec where "surfaces (fst (new_xdg_surface st a p xdg)) a = Some rec"
    and "surface_wid rec = wid st + 1" by auto
  then show "assigned_wids st (e # es) = (wid st + 1) # assigned_wids (fst (handle st e)) es"
    using e r by simp
qed

lemma assigned_wids_no_creation:
  "\<not> creates_record e \<Longrightarrow> assigned_wids st (e # es) = assigned_wids (fst (handle st e)) es"
  by (cases e) simp_all

lemma run_Cons:
  "run st (e # es) = (fst (run (fst (handle st e)) es),
                      emitted (snd (handle st e)) @ snd (run (fst (handle st e)) es))"
  by (simp add: split_beta)

lemma map_upt_Suc: "map f [0..<Suc n] = f 0 # map (\<lambda>k. f (Suc k)) [0..<n]"
proof -
  have "[0..<Suc n] = 0 # [Suc 0..<Suc n]" by (rule upt_conv_Cons) simp
  also have "[Suc 0..<Suc n] = map Suc [0..<n]" by (rule map_Suc_upt [symmetric])
  finally have "[0..<Suc n] = 0 # map Suc [0..<n]" .
  then show ?thesis by (simp only: list.map map_map o_def)
qed

text \<open>
  The wids a run writes into its records count up from the counter, one by one, in
  the machine's arithmetic; the counter ends that many steps further.
\<close>

lemma assigned_wids_run:
  "assigned_wids st es = map (\<lambda>k. wid st + of_nat (Suc k)) [0..<creations es]
   \<and> wid (fst (run st es)) = wid st + of_nat (creations es)"
proof (induction es arbitrary: st)
  case Nil
  then show ?case by (simp add: creations_def)
next
  case (Cons e es)
  let ?st' = "fst (handle st e)"
  note ih = Cons.IH [of ?st']
  show ?case
  proof (cases "creates_record e")
    case False
    then have c: "creations (e # es) = creations es" by (simp add: creations_def)
    from False have w: "wid ?st' = wid st" by (simp add: handle_no_creation)
    from ih w show ?thesis
      unfolding run_Cons c assigned_wids_no_creation [OF False] by simp
  next
    case True
    then have c: "creations (e # es) = Suc (creations es)" by (simp add: creations_def)
    from True have w: "wid ?st' = wid st + 1" by (rule handle_creation(1))
    have a: "assigned_wids st (e # es) = (wid st + 1) # assigned_wids ?st' es"
      using True by (rule handle_creation(3))
    from ih w show ?thesis
      unfolding run_Cons c a map_upt_Suc by (simp add: add.assoc)
  qed
qed

text \<open>The announced wids are among the assigned ones, in the same order.\<close>

lemma announced_subseq_assigned:
  "subseq (new_surface_wids (snd (run st es))) (map uint (assigned_wids st es))"
proof (induction es arbitrary: st)
  case Nil
  then show ?case by (simp add: new_surface_wids_Nil)
next
  case (Cons e es)
  let ?st' = "fst (handle st e)"
  note ih = Cons.IH [of ?st']
  show ?case
  proof (cases "creates_record e")
    case False
    with ih show ?thesis
      unfolding run_Cons assigned_wids_no_creation [OF False]
      by (simp add: new_surface_wids_append handle_no_creation)
  next
    case True
    have a: "assigned_wids st (e # es) = (wid st + 1) # assigned_wids ?st' es"
      using True by (rule handle_creation(3))
    from handle_creation(2) [OF True, of st] show ?thesis
    proof
      assume "new_surface_wids (emitted (snd (handle st e))) = [uint (wid st + 1)]"
      with ih show ?thesis
        unfolding run_Cons a by (simp add: new_surface_wids_append)
    next
      assume "new_surface_wids (emitted (snd (handle st e))) = []"
      with ih show ?thesis
        unfolding run_Cons a by (simp add: new_surface_wids_append list_emb_Cons)
    qed
  qed
qed

lemma unat_wid_plus:
  fixes w :: "64 word"
  assumes "unat w + m < 2 ^ 64"
  shows "uint (w + of_nat m) = uint w + int m"
proof -
  from assms have m: "m < 2 ^ 64" by simp
  then have "unat (of_nat m :: 64 word) = m" by (simp add: unat_of_nat)
  with assms have "unat (w + of_nat m) = unat w + m" by (simp add: unat_word_ariths)
  then have "int (unat (w + of_nat m)) = int (unat w + m)" by (simp only:)
  then show ?thesis by simp
qed

lemma assigned_wids_sorted:
  assumes "unat (wid st) + creations es < 2 ^ 64"
  shows "sorted_wrt (<) (map uint (assigned_wids st es))"
proof -
  let ?n = "creations es"
  have step: "uint (wid st + of_nat (Suc i)) < uint (wid st + of_nat (Suc j))"
    if "i \<in> set [0..<?n]" and "j \<in> set [0..<?n]" and "i < j" for i j
  proof -
    from that assms have "unat (wid st) + Suc i < 2 ^ 64" and "unat (wid st) + Suc j < 2 ^ 64"
      by simp_all
    then have "uint (wid st + of_nat (Suc i)) = uint (wid st) + int (Suc i)"
      and "uint (wid st + of_nat (Suc j)) = uint (wid st) + int (Suc j)"
      by (simp_all only: unat_wid_plus)
    with \<open>i < j\<close> show ?thesis by simp
  qed
  have "sorted_wrt (<) [0..<?n]" by simp
  with step
  have "sorted_wrt (\<lambda>i j. uint (wid st + of_nat (Suc i)) < uint (wid st + of_nat (Suc j)))
               [0..<?n]"
    by (rule sorted_wrt_mono_rel [where P = "(<)"])
  then show ?thesis
    by (simp add: assigned_wids_run sorted_wrt_map)
qed

lemma sorted_wrt_subseq:
  "subseq xs ys \<Longrightarrow> sorted_wrt R ys \<Longrightarrow> sorted_wrt R xs"
proof (induction rule: list_emb.induct)
  case (list_emb_Nil ys)
  then show ?case by simp
next
  case (list_emb_Cons xs ys y)
  then show ?case by simp
next
  case (list_emb_Cons2 x y xs ys)
  from list_emb_Cons2.hyps have xy: "x = y" and sub: "subseq xs ys" by simp_all
  have subset: "set xs \<subseteq> set ys"
  proof
    fix z
    assume "z \<in> set xs"
    with sub obtain w where "w \<in> set ys" and "z = w" by (rule list_emb_set)
    then show "z \<in> set ys" by simp
  qed
  from list_emb_Cons2.prems have all: "\<forall>z \<in> set ys. R y z" and rest: "sorted_wrt R ys"
    by simp_all
  from rest have "sorted_wrt R xs" by (rule list_emb_Cons2.IH)
  moreover from all subset xy have "\<forall>z \<in> set xs. R x z" by blast
  ultimately show ?case by simp
qed

text \<open>
  Claim C7, as the code has it. In a run of the event loop during which the global
  \<open>wid\<close>, an \<open>unsigned long\<close>, does not wrap (its value at the start plus the
  number of records created stays below \<open>2 ^ 64\<close>), the wids of the \<open>new-surface\<close>
  events, in the order of emission, are strictly increasing. They are among the wids
  written into the records, in the same order (a surface whose title or app id cannot
  be decoded gets a wid and no event), and those are strictly increasing too: no two
  records get the same wid.
\<close>

theorem wids_strictly_increasing:
  assumes "unat (wid st) + creations es < 2 ^ 64"
  shows "sorted_wrt (<) (new_surface_wids (snd (run st es)))
       \<and> subseq (new_surface_wids (snd (run st es))) (map uint (assigned_wids st es))
       \<and> sorted_wrt (<) (map uint (assigned_wids st es))
       \<and> distinct (assigned_wids st es)"
proof -
  note sub = announced_subseq_assigned [of st es]
  note srt = assigned_wids_sorted [OF assms]
  from sub srt have ann: "sorted_wrt (<) (new_surface_wids (snd (run st es)))"
    by (rule sorted_wrt_subseq)
  from srt have "distinct (map uint (assigned_wids st es))" by (simp add: strict_sorted_iff)
  then have "distinct (assigned_wids st es)" by (simp add: distinct_map)
  with ann sub srt show ?thesis by simp
qed

theorem wids_strictly_increasing_witness:
  "new_surface_wids (snd (run (initial_state False)
      [New_xdg_surface 4096 8192 undecodable_toplevel,
       New_xdg_surface 4352 8448 example_toplevel,
       New_xdg_surface 4608 8704 example_toplevel])) = [2, 3]
   \<and> assigned_wids (initial_state False)
      [New_xdg_surface 4096 8192 undecodable_toplevel,
       New_xdg_surface 4352 8448 example_toplevel,
       New_xdg_surface 4608 8704 example_toplevel] = [1, 2, 3]
   \<and> sorted_wrt (<) (new_surface_wids (snd (run (initial_state False)
      [New_xdg_surface 4096 8192 undecodable_toplevel,
       New_xdg_surface 4352 8448 example_toplevel,
       New_xdg_surface 4608 8704 example_toplevel])))
   \<and> distinct (assigned_wids (initial_state False)
      [New_xdg_surface 4096 8192 undecodable_toplevel,
       New_xdg_surface 4352 8448 example_toplevel,
       New_xdg_surface 4608 8704 example_toplevel])"
proof -
  let ?es = "[New_xdg_surface 4096 8192 undecodable_toplevel,
              New_xdg_surface 4352 8448 example_toplevel,
              New_xdg_surface 4608 8704 example_toplevel]"
  have h: "unat (wid (initial_state False)) + creations ?es < 2 ^ 64"
    by (simp add: initial_state_def creations_def example_toplevel_def undecodable_toplevel_def)
  have announced: "new_surface_wids (snd (run (initial_state False) ?es)) = [2, 3]"
    by (simp add: initial_state_def example_toplevel_def undecodable_toplevel_def
        new_xdg_surface_def Let_def with_strings_def title_of_def app_id_of_def
        then_effects_def emits_def no_effects_def new_surface_wids_def List.map_filter_def)
  have assigned: "assigned_wids (initial_state False) ?es = [1, 2, 3]"
    by (simp add: initial_state_def example_toplevel_def undecodable_toplevel_def
        new_xdg_surface_def Let_def)
  from wids_strictly_increasing [OF h] announced assigned show ?thesis by simp
qed

text \<open>
  Claim C7 as stated fails where the counter wraps: from \<open>wid = 2 ^ 64 - 2\<close> two new
  surfaces are announced with the wids \<open>2 ^ 64 - 1\<close> and \<open>0\<close>.
\<close>

theorem wid_wraps_counterexample:
  "new_surface_wids (snd (run ((initial_state False)\<lparr>wid := 0xFFFFFFFFFFFFFFFE\<rparr>)
      [New_xdg_surface 4096 8192 example_toplevel, New_xdg_surface 4352 8448 example_toplevel]))
     = [18446744073709551615, 0]
   \<and> \<not> sorted_wrt (<) (new_surface_wids (snd (run ((initial_state False)\<lparr>wid := 0xFFFFFFFFFFFFFFFE\<rparr>)
      [New_xdg_surface 4096 8192 example_toplevel, New_xdg_surface 4352 8448 example_toplevel])))"
proof -
  have "new_surface_wids (snd (run ((initial_state False)\<lparr>wid := 0xFFFFFFFFFFFFFFFE\<rparr>)
      [New_xdg_surface 4096 8192 example_toplevel, New_xdg_surface 4352 8448 example_toplevel]))
     = [18446744073709551615, 0]"
    by (simp add: initial_state_def example_toplevel_def new_xdg_surface_def Let_def
        with_strings_def title_of_def app_id_of_def then_effects_def emits_def
        new_surface_wids_def List.map_filter_def)
  then show ?thesis by simp
qed


lemma initialize_wid: "wid (fst (initialize lib st self)) = wid st"
  by (simp add: initialize_def Let_def split: option.splits)

lemma run_signals_wid: "wid (fst (run st (map signal_event signals))) = wid st"
proof (induction signals arbitrary: st)
  case Nil
  then show ?case by simp
next
  case (Cons s signals)
  obtain a f xdg serial where s: "s = (a, f, xdg, serial)" by (cases s)
  obtain st' eff where n: "notify st a f xdg serial = (st', eff)"
    by (cases "notify st a f xdg serial")
  have "wid st' = wid st" using notify_wid [of st a f xdg serial] n by simp
  with Cons.IH [of st'] s n show ?case by (simp add: split_beta)
qed

lemma cleanup_wid: "wid (fst (cleanup signals st self)) = wid st"
  using run_signals_wid [of st signals]
  by (simp add: cleanup_def split_beta)

text \<open>
  Claim C10. \<open>cleanup\<close> of one compositor object followed by \<open>initialize\<close> of another
  leaves the global \<open>wid\<close> as it was, whatever the library answers and whatever signals
  it delivers meanwhile. The next surface that is not a popup moves the counter to the
  old value plus one and gets that wid in its record; it is announced with it when its
  strings can be decoded. The records of any run that follows get the old value plus
  one, plus two and so on. The old value plus one is not 1 unless the counter was
  still 0.
\<close>

theorem wid_continues_after_restart:
  "(let st2 = fst (initialize lib (fst (cleanup signals st self)) self')
    in wid st2 = wid st
       \<and> (role xdg \<noteq> WLR_XDG_SURFACE_ROLE_POPUP \<longrightarrow>
            wid (fst (new_xdg_surface st2 a p xdg)) = wid st + 1
            \<and> map_option surface_wid (surfaces (fst (new_xdg_surface st2 a p xdg)) a)
                = Some (wid st + 1)
            \<and> new_surface_wids (emitted (snd (new_xdg_surface st2 a p xdg)))
                = (if decodable xdg then [uint (wid st + 1)] else []))
       \<and> assigned_wids st2 es = map (\<lambda>k. wid st + of_nat (Suc k)) [0..<creations es]
       \<and> wid (fst (run st2 es)) = wid st + of_nat (creations es))
   \<and> (wid st \<noteq> 0 \<longrightarrow> wid st + 1 \<noteq> 1)"
proof -
  let ?st2 = "fst (initialize lib (fst (cleanup signals st self)) self')"
  have w: "wid ?st2 = wid st" by (simp add: initialize_wid cleanup_wid)
  have n: "role xdg \<noteq> WLR_XDG_SURFACE_ROLE_POPUP \<longrightarrow>
            wid (fst (new_xdg_surface ?st2 a p xdg)) = wid st + 1
            \<and> map_option surface_wid (surfaces (fst (new_xdg_surface ?st2 a p xdg)) a)
                = Some (wid st + 1)
            \<and> new_surface_wids (emitted (snd (new_xdg_surface ?st2 a p xdg)))
                = (if decodable xdg then [uint (wid st + 1)] else [])"
    using new_xdg_surface_wid [of xdg ?st2 a p] new_xdg_surface_record [of xdg ?st2 a p]
      new_xdg_surface_announced [of xdg ?st2 a p] w
    by simp
  have r: "assigned_wids ?st2 es = map (\<lambda>k. wid st + of_nat (Suc k)) [0..<creations es]
           \<and> wid (fst (run ?st2 es)) = wid st + of_nat (creations es)"
    using assigned_wids_run [of ?st2 es] w by simp
  have z: "wid st \<noteq> 0 \<longrightarrow> wid st + 1 \<noteq> 1" by simp
  from w n r z show ?thesis by (simp only: Let_def)
qed

theorem wid_continues_after_restart_witness:
  "srv_display running_compositor \<noteq> 0
   \<and> surfaces (fst (cleanup [(4096, L_destroy, example_toplevel, 0)]
                      one_surface_state running_compositor)) 4096 = None
   \<and> (let st2 = fst (initialize good_library
                      (fst (cleanup [(4096, L_destroy, example_toplevel, 0)]
                              one_surface_state running_compositor)) cinit)
      in wid st2 = 1
         \<and> wid (fst (new_xdg_surface st2 4352 8448 example_toplevel)) = 2
         \<and> map_option surface_wid
              (surfaces (fst (new_xdg_surface st2 4352 8448 example_toplevel)) 4352) = Some 2
         \<and> new_surface_wids (emitted (snd (new_xdg_surface st2 4352 8448 example_toplevel)))
              = [2]
         \<and> assigned_wids st2 [New_xdg_surface 4352 8448 example_toplevel,
                               New_xdg_surface 4608 8704 undecodable_toplevel] = [2, 3])"
proof -
  let ?signals = "[(4096, L_destroy, example_toplevel, 0 :: 32 word)]"
  let ?es = "[New_xdg_surface 4352 8448 example_toplevel,
              New_xdg_surface 4608 8704 undecodable_toplevel]"
  have running: "srv_display running_compositor = 4096"
    by (simp add: running_compositor_def initialize_def good_library_def cinit_def Let_def)
  have freed: "surfaces (fst (cleanup ?signals one_surface_state running_compositor)) 4096 = None"
    by (simp add: cleanup_def running one_surface_state_def example_record_def notify_def
        xdg_surface_destroy_handler_def Let_def)
  have w: "wid one_surface_state = 1" by (simp add: one_surface_state_def)
  have r: "role example_toplevel \<noteq> WLR_XDG_SURFACE_ROLE_POPUP"
    by (simp add: example_toplevel_def)
  have d: "decodable example_toplevel"
    by (simp add: decodable_def title_of_def app_id_of_def example_toplevel_def)
  have c: "creations ?es = 2"
    by (simp add: creations_def example_toplevel_def undecodable_toplevel_def)
  have u: "[0..<2] = [0, Suc 0]" by (simp add: upt_conv_Cons)
  note T = wid_continues_after_restart
    [of good_library ?signals one_surface_state running_compositor cinit example_toplevel
        4352 8448 ?es]
  from T running freed show ?thesis
    by (simp add: Let_def w r d c u)
qed

section \<open>Surface destruction\<close>

text \<open>
  Claim C1, at a surface created and destroyed while debug logging is off. The surface
  is announced with wid 1; its destroy signal unlinks the listeners and frees the
  record, and no \<open>destroy\<close> event is emitted: \<open>emit("destroy", wid)\<close> stands inside
  \<open>if debug:\<close>.
\<close>

theorem destroy_not_emitted_without_debug:
  "snd (run (initial_state False)
         [New_xdg_surface 4096 8192 example_toplevel, Signal 4096 L_destroy example_toplevel 0])
     = [(''new-surface'', [PyInt 8192, PyInt 1, PyStr [], PyStr [], PyTuple [PyInt 0, PyInt 0]])]
   \<and> surfaces (fst (run (initial_state False)
         [New_xdg_surface 4096 8192 example_toplevel, Signal 4096 L_destroy example_toplevel 0]))
       4096 = None"
  by (simp add: initial_state_def example_toplevel_def new_xdg_surface_def notify_def
      xdg_surface_destroy_handler_def Let_def with_strings_def title_of_def app_id_of_def
      size_of_def then_effects_def emits_def no_effects_def)

text \<open>
  The handler on any record. With debug logging on it emits \<open>destroy(wid)\<close> once and
  no signal reaches the freed record afterwards; with debug logging off it emits
  nothing. Either way every linked listener is unlinked and the record freed.
\<close>

lemma destroy_handler_with_debug:
  assumes "surfaces st a = Some surf" and "linked surf L_destroy" and "debug st"
  shows "emitted (snd (notify st a L_destroy xdg serial))
           = [(''destroy'', [PyInt (uint (surface_wid surf))])]
       \<and> surfaces (fst (notify st a L_destroy xdg serial)) a = None
       \<and> notify (fst (notify st a L_destroy xdg serial)) a f xdg' serial'
           = (fst (notify st a L_destroy xdg serial), no_effects)"
  using assms by (simp add: notify_def xdg_surface_destroy_handler_def Let_def)

lemma destroy_handler_without_debug:
  assumes "surfaces st a = Some surf" and "linked surf L_destroy" and "\<not> debug st"
  shows "emitted (snd (notify st a L_destroy xdg serial)) = []
       \<and> surfaces (fst (notify st a L_destroy xdg serial)) a = None"
  using assms by (simp add: notify_def xdg_surface_destroy_handler_def Let_def)

lemma destroy_handler_frees:
  assumes "surfaces st a = Some surf" and "linked surf L_destroy"
  shows "free a \<in> set (calls (snd (notify st a L_destroy xdg serial)))
       \<and> (\<forall>f. linked surf f \<longrightarrow> wl_list_remove f \<in> set (calls (snd (notify st a L_destroy xdg serial))))"
proof -
  have "linked surf f \<longrightarrow> wl_list_remove f \<in> set (calls (snd (notify st a L_destroy xdg serial)))" for f
    using assms
    by (cases f) (simp_all add: notify_def xdg_surface_destroy_handler_def Let_def unlink_if_linked_def)
  then show ?thesis using assms by (simp add: notify_def xdg_surface_destroy_handler_def Let_def)
qed


section \<open>Lifecycle\<close>

text \<open>
  Claim C3, at a library whose \<open>wlr_compositor_create\<close> returns \<open>NULL\<close> while every
  other call succeeds: \<open>initialize\<close> stores the null pointer and returns the socket
  name.
\<close>

theorem initialize_ignores_null_compositor:
  "snd (snd (initialize (good_library\<lparr>wlr_compositor_create := 0\<rparr>) (initial_state False) cinit))
     = Returned ''wayland-1''
   \<and> srv_compositor (fst (snd (initialize (good_library\<lparr>wlr_compositor_create := 0\<rparr>)
                                   (initial_state False) cinit))) = 0"
  by (simp add: initialize_def good_library_def cinit_def Let_def)

text \<open>
  The other unchecked steps, and the checked ones: an error raised by \<open>initialize\<close>
  names one of eight steps, none of them the compositor object, the XDG shell, the
  scene or the seat.
\<close>

lemma initialize_ignores_null_scene:
  "snd (snd (initialize (good_library\<lparr>wlr_scene_create := 0\<rparr>) (initial_state False) cinit))
     = Returned ''wayland-1''"
  by (simp add: initialize_def good_library_def cinit_def Let_def)

lemma initialize_null_xdg_shell:
  "snd (snd (initialize (good_library\<lparr>wlr_xdg_shell_create := 0\<rparr>) (initial_state False) cinit))
     = Null_dereference"
  by (simp add: initialize_def good_library_def cinit_def Let_def)

lemma initialize_null_seat:
  "snd (snd (initialize (good_library\<lparr>wlr_seat_create := 0\<rparr>) (initial_state False) cinit))
     = Null_dereference"
  by (simp add: initialize_def good_library_def cinit_def Let_def)

lemma initialize_good:
  "snd (snd (initialize good_library (initial_state False) cinit)) = Returned ''wayland-1''"
  by (simp add: initialize_def good_library_def cinit_def Let_def)

lemma initialize_checked_steps:
  "wl_display_create lib = 0 \<Longrightarrow>
     snd (snd (initialize lib st self)) = RuntimeError ''Failed to create display''"
  "wl_display_create lib \<noteq> 0 \<Longrightarrow> wlr_headless_backend_create lib = 0 \<Longrightarrow>
     snd (snd (initialize lib st self)) = RuntimeError ''Failed to create headless backend''"
  "wl_display_create lib \<noteq> 0 \<Longrightarrow> wlr_headless_backend_create lib \<noteq> 0 \<Longrightarrow>
   wlr_renderer_autocreate lib = 0 \<Longrightarrow>
     snd (snd (initialize lib st self)) = RuntimeError ''Failed to create renderer''"
  "wl_display_create lib \<noteq> 0 \<Longrightarrow> wlr_headless_backend_create lib \<noteq> 0 \<Longrightarrow>
   wlr_renderer_autocreate lib \<noteq> 0 \<Longrightarrow> wlr_allocator_autocreate lib = 0 \<Longrightarrow>
     snd (snd (initialize lib st self)) = RuntimeError ''Failed to create allocator''"
  by (simp_all add: initialize_def Let_def)

lemma initialize_checked_steps_late:
  assumes "wl_display_create lib \<noteq> 0" and "wlr_headless_backend_create lib \<noteq> 0"
    and "wlr_renderer_autocreate lib \<noteq> 0" and "wlr_allocator_autocreate lib \<noteq> 0"
    and "wlr_xdg_shell_create lib \<noteq> 0"
  shows "wlr_output_layout_create lib = 0 \<Longrightarrow>
           snd (snd (initialize lib st self)) = RuntimeError ''Failed to create output layout''"
    and "wlr_output_layout_create lib \<noteq> 0 \<Longrightarrow> wlr_cursor_create lib = 0 \<Longrightarrow>
           snd (snd (initialize lib st self)) = RuntimeError ''Failed to create cursor''"
    and "wlr_output_layout_create lib \<noteq> 0 \<Longrightarrow> wlr_cursor_create lib \<noteq> 0 \<Longrightarrow>
         wlr_seat_create lib \<noteq> 0 \<Longrightarrow> wl_display_add_socket_auto lib = None \<Longrightarrow>
           snd (snd (initialize lib st self)) = RuntimeError ''Failed to add socket''"
    and "wlr_output_layout_create lib \<noteq> 0 \<Longrightarrow> wlr_cursor_create lib \<noteq> 0 \<Longrightarrow>
         wlr_seat_create lib \<noteq> 0 \<Longrightarrow> wl_display_add_socket_auto lib = Some name \<Longrightarrow>
         \<not> wlr_backend_start lib \<Longrightarrow>
           snd (snd (initialize lib st self)) = RuntimeError ''Failed to start backend''"
    and "wlr_output_layout_create lib \<noteq> 0 \<Longrightarrow> wlr_cursor_create lib \<noteq> 0 \<Longrightarrow>
         wlr_seat_create lib \<noteq> 0 \<Longrightarrow> wl_display_add_socket_auto lib = Some name \<Longrightarrow>
         wlr_backend_start lib \<Longrightarrow>
           snd (snd (initialize lib st self)) = Returned name
           \<and> environ (fst (initialize lib st self)) ''WAYLAND_DISPLAY'' = Some name"
  using assms by (simp_all add: initialize_def Let_def)


lemma initialize_messages:
  "snd (snd (initialize lib st self)) = RuntimeError msg \<Longrightarrow>
     msg \<in> {''Failed to create display'', ''Failed to create headless backend'',
            ''Failed to create renderer'', ''Failed to create allocator'',
            ''Failed to create output layout'', ''Failed to create cursor'',
            ''Failed to add socket'', ''Failed to start backend''}"
  by (simp add: initialize_def Let_def split: if_splits option.splits)

section \<open>The keyboard facade\<close>

text \<open>
  The constructor call that \<open>get_keyboard_device\<close> has commented out would hand
  out a keyboard on every compositor object that \<open>initialize\<close> has set up.
\<close>

lemma initialize_sets_seat:
  "snd (snd (initialize lib st self)) = Returned name \<Longrightarrow>
     srv_seat (fst (snd (initialize lib st self))) \<noteq> 0"
  by (simp add: initialize_def Let_def split: if_splits option.splits)

lemma commented_out_constructor_returns:
  assumes "snd (snd (initialize lib st self)) = Returned name"
  shows "WaylandKeyboard_init (srv_seat (fst (snd (initialize lib st self))))
           = Returned \<lparr>kb_seat = srv_seat (fst (snd (initialize lib st self))), kb_keyboard = 0\<rparr>"
  using initialize_sets_seat [OF assms] by (simp add: WaylandKeyboard_init_def)

lemma call_never_returns_keyboard:
  "snd (snd (call m st self)) \<noteq> Returned (Py_keyboard keyboard)"
proof (cases m)
  case (M_initialize lib)
  obtain st' self' r where i: "initialize lib st self = (st', self', r)"
    by (cases "initialize lib st self")
  with M_initialize show ?thesis by (cases r) simp_all
next
  case (M_cleanup signals)
  then show ?thesis by (simp add: split_beta)
next
  case M_get_keyboard_device
  then show ?thesis by (simp add: get_keyboard_device_def)
qed simp_all

text \<open>
  Claim C9. \<open>get_keyboard_device\<close> returns \<open>None\<close> on every compositor object, and
  no public method of the object, called in any state with any arguments and any
  behaviour of the library, alone or in a sequence of calls, returns a
  \<open>WaylandKeyboard\<close>: the facade and its methods cannot be reached through the object.
\<close>

theorem keyboard_facade_unreachable:
  "get_keyboard_device self = None
   \<and> snd (snd (call m st self)) \<noteq> Returned (Py_keyboard keyboard)
   \<and> Returned (Py_keyboard keyboard) \<notin> set (calls_results ms st self)"
proof -
  have "Returned (Py_keyboard keyboard) \<notin> set (calls_results ms st self)"
  proof (induction ms arbitrary: st self)
    case Nil
    then show ?case by simp
  next
    case (Cons m' ms)
    obtain st' self' r where c: "call m' st self = (st', self', r)"
      by (cases "call m' st self")
    with call_never_returns_keyboard [of m' st self keyboard]
    have "r \<noteq> Returned (Py_keyboard keyboard)" by simp
    with Cons.IH [of st' self'] c show ?case by simp
  qed
  then show ?thesis
    by (simp add: get_keyboard_device_def call_never_returns_keyboard)
qed

end
